theory Spec2Isabelle
  imports Complex_Main
begin

section \<open>Python values and exceptions\<close>

text \<open>
  The resolvers of \<^verbatim>\<open>platform_matcher.py\<close> and \<^verbatim>\<open>songmatch.py\<close> work on the
  decoded JSON bodies of HTTP responses. A decoded body is any Python value that
  \<^verbatim>\<open>response.json()\<close> can produce; \<open>JNull\<close> is Python's \<^verbatim>\<open>None\<close>. A dictionary
  is an association list read with \<open>map_of\<close>.
\<close>

datatype json =
    JNull
  | JBool bool
  | JInt int
  | JFloat real
  | JStr string
  | JArr "json list"
  | JObj "(string \<times> json) list"

text \<open>
  Exceptions. \<open>RequestException\<close> is \<^verbatim>\<open>requests.exceptions.RequestException\<close>, the
  only class the platform methods catch and re-raise; \<open>Exception\<close> is a plain
  \<^verbatim>\<open>Exception(message)\<close>.
\<close>

datatype exn =
    RequestException string
  | Exception string
  | AttributeError string
  | KeyError string
  | IndexError string
  | TypeError string
  | ValueError string

definition quote :: "string \<Rightarrow> string" where
  "quote s = CHR 0x27 # s @ [CHR 0x27]"

text \<open>\<^verbatim>\<open>str(e)\<close>: the message; a \<open>KeyError\<close> carries the \<^verbatim>\<open>repr\<close> of its key.\<close>

fun str :: "exn \<Rightarrow> string" where
  "str (RequestException m) = m"
| "str (Exception m) = m"
| "str (AttributeError m) = m"
| "str (KeyError k) = k"
| "str (IndexError m) = m"
| "str (TypeError m) = m"
| "str (ValueError m) = m"

fun type_name :: "json \<Rightarrow> string" where
  "type_name JNull = ''NoneType''"
| "type_name (JBool b) = ''bool''"
| "type_name (JInt n) = ''int''"
| "type_name (JFloat x) = ''float''"
| "type_name (JStr s) = ''str''"
| "type_name (JArr xs) = ''list''"
| "type_name (JObj kvs) = ''dict''"

text \<open>Python truthiness, as used by \<^verbatim>\<open>if x:\<close>, \<^verbatim>\<open>not x\<close> and \<^verbatim>\<open>x and y\<close>.\<close>

fun truthy :: "json \<Rightarrow> bool" where
  "truthy JNull = False"
| "truthy (JBool b) = b"
| "truthy (JInt n) = (n \<noteq> 0)"
| "truthy (JFloat x) = (x \<noteq> 0)"
| "truthy (JStr s) = (s \<noteq> [])"
| "truthy (JArr xs) = (xs \<noteq> [])"
| "truthy (JObj kvs) = (kvs \<noteq> [])"

text \<open>Sequencing of statements that may raise: the first exception ends the block.\<close>

fun and_then :: "exn + 'a \<Rightarrow> ('a \<Rightarrow> exn + 'b) \<Rightarrow> exn + 'b" where
  "and_then (Inl e) f = Inl e"
| "and_then (Inr x) f = f x"

definition no_attribute :: "json \<Rightarrow> string \<Rightarrow> exn" where
  "no_attribute v a = AttributeError (quote (type_name v) @ '' object has no attribute '' @ quote a)"

text \<open>\<^verbatim>\<open>d.get(k, default)\<close>: only a dictionary has the method.\<close>

fun py_get :: "json \<Rightarrow> string \<Rightarrow> json \<Rightarrow> exn + json" where
  "py_get (JObj kvs) k d = Inr (case map_of kvs k of Some v \<Rightarrow> v | None \<Rightarrow> d)"
| "py_get v k d = Inl (no_attribute v ''get'')"

text \<open>\<^verbatim>\<open>d[k]\<close> with a string key \<open>k\<close>.\<close>

fun py_getitem :: "json \<Rightarrow> string \<Rightarrow> exn + json" where
  "py_getitem (JObj kvs) k = (case map_of kvs k of Some v \<Rightarrow> Inr v | None \<Rightarrow> Inl (KeyError (quote k)))"
| "py_getitem (JArr xs) k = Inl (TypeError ''list indices must be integers or slices, not str'')"
| "py_getitem (JStr s) k = Inl (TypeError ''string indices must be integers, not str'')"
| "py_getitem v k = Inl (TypeError (quote (type_name v) @ '' object is not subscriptable''))"

text \<open>
  \<^verbatim>\<open>x[0]\<close>. A decoded JSON dictionary has string keys only, so the integer key
  \<open>0\<close> is never present.
\<close>

fun py_first :: "json \<Rightarrow> exn + json" where
  "py_first (JArr []) = Inl (IndexError ''list index out of range'')"
| "py_first (JArr (v # vs)) = Inr v"
| "py_first (JStr []) = Inl (IndexError ''string index out of range'')"
| "py_first (JStr (c # cs)) = Inr (JStr [c])"
| "py_first (JObj kvs) = Inl (KeyError ''0'')"
| "py_first v = Inl (TypeError (quote (type_name v) @ '' object is not subscriptable''))"

text \<open>
  \<^verbatim>\<open>for track in x\<close>: a list yields its elements, a string its characters, a
  dictionary its keys; nothing else is iterable.
\<close>

fun py_iter :: "json \<Rightarrow> exn + json list" where
  "py_iter (JArr xs) = Inr xs"
| "py_iter (JStr s) = Inr (map (\<lambda>c. JStr [c]) s)"
| "py_iter (JObj kvs) = Inr (map (\<lambda>kv. JStr (fst kv)) kvs)"
| "py_iter v = Inl (TypeError (quote (type_name v) @ '' object is not iterable''))"

section \<open>The similarity scorer of \<^verbatim>\<open>platform_matcher.py\<close>\<close>

text \<open>\<^verbatim>\<open>str.lower()\<close>, on the ASCII letters; a value that is not a string has no such method.\<close>

definition lower_char :: "char \<Rightarrow> char" where
  "lower_char c =
     (case map_of (zip ''ABCDEFGHIJKLMNOPQRSTUVWXYZ'' ''abcdefghijklmnopqrstuvwxyz'') c of
        Some l \<Rightarrow> l
      | None \<Rightarrow> c)"

definition lower :: "string \<Rightarrow> string" where
  "lower s = map lower_char s"

fun py_lower :: "json \<Rightarrow> exn + string" where
  "py_lower (JStr s) = Inr (lower s)"
| "py_lower v = Inl (no_attribute v ''lower'')"

text \<open>
  Modelled from the spec: \<^verbatim>\<open>jellyfish.levenshtein_distance\<close> belongs to a library
  that is not part of the repository. The spec calls it an edit distance; it is
  modelled as the Levenshtein distance, by the recurrence over insertion, deletion
  and substitution each of cost one.
\<close>

fun levenshtein_distance :: "'a list \<Rightarrow> 'a list \<Rightarrow> nat" where
  "levenshtein_distance [] ys = length ys"
| "levenshtein_distance (x # xs) [] = Suc (length xs)"
| "levenshtein_distance (x # xs) (y # ys) =
     min (min (levenshtein_distance xs (y # ys) + 1) (levenshtein_distance (x # xs) ys + 1))
         (levenshtein_distance xs ys + (if x = y then 0 else 1))"

text \<open>The body of the \<^verbatim>\<open>try\<close> block of \<^verbatim>\<open>_calculate_similarity\<close>.\<close>

definition similarity_body :: "json \<Rightarrow> json \<Rightarrow> exn + real" where
  "similarity_body str1 str2 =
     and_then (py_lower str1) (\<lambda>s1.
     and_then (py_lower str2) (\<lambda>s2.
       let distance = levenshtein_distance s1 s2;
           max_len = max (length s1) (length s2)
       in if max_len = 0 then Inr 0
          else Inr (1 - real distance / real max_len)))"

text \<open>
  \<^verbatim>\<open>_calculate_similarity\<close>: the \<^verbatim>\<open>except Exception\<close> clause turns every
  exception of the body into the score \<open>0.0\<close>. Scores are Python floats, modelled
  as reals.
\<close>

definition calculate_similarity :: "json \<Rightarrow> json \<Rightarrow> exn + real" where
  "calculate_similarity str1 str2 =
     (case similarity_body str1 str2 of Inl e \<Rightarrow> Inr 0 | Inr similarity \<Rightarrow> Inr similarity)"

section \<open>The environment: the two platforms' web services\<close>

text \<open>
  Each field stands for the HTTP exchange inside the \<^verbatim>\<open>try\<close> block of one platform
  method (token, request, retry after a 401, \<^verbatim>\<open>raise_for_status\<close>, decoding): it
  gives the decoded body or the exception raised there. One resolution calls each
  method at most once, so a function per method loses nothing.

  \<open>format_value\<close> is Python's string formatting of a value inside an f-string,
  \<open>jaro_winkler\<close> is \<^verbatim>\<open>jellyfish.jaro_winkler\<close>, a library function from two
  strings to a float, and \<open>parse_music_url\<close> is the
  regular-expression matching of \<^verbatim>\<open>MusicServiceMatcher.parse_music_url\<close>, which
  returns one of the two platform names with the track id or raises
  \<^verbatim>\<open>ValueError\<close>. All three are parameters.
\<close>

datatype platform = spotify | apple_music

fun platform_name :: "platform \<Rightarrow> string" where
  "platform_name spotify = ''spotify''"
| "platform_name apple_music = ''apple_music''"

record env =
  spotify_track :: "string \<Rightarrow> exn + json"
  spotify_isrc_search :: "json \<Rightarrow> exn + json"
  spotify_track_search :: "json \<Rightarrow> json \<Rightarrow> exn + json"
  apple_song :: "string \<Rightarrow> exn + json"
  apple_isrc_filter :: "json \<Rightarrow> exn + json"
  apple_song_search :: "json \<Rightarrow> json \<Rightarrow> exn + json"
  format_value :: "json \<Rightarrow> string"
  jaro_winkler :: "string \<Rightarrow> string \<Rightarrow> real"
  parse_music_url :: "string \<Rightarrow> exn + platform \<times> string"

text \<open>
  \<^verbatim>\<open>except requests.exceptions.RequestException as e: raise Exception(f"...: {e}")\<close>:
  a request failure is re-raised with a prefix, any other exception passes.
\<close>

fun reraise :: "string \<Rightarrow> exn + 'a \<Rightarrow> exn + 'a" where
  "reraise prefix (Inl (RequestException m)) = Inl (Exception (prefix @ m))"
| "reraise prefix r = r"

text \<open>The calls a resolution makes to the platform methods, in order.\<close>

datatype call =
    Fetch_by_id string string
  | Search_by_isrc string json
  | Search_by_metadata string json json

subsection \<open>\<^verbatim>\<open>PlatformMatcher\<close>: dispatch on the platform string\<close>

definition get_track_metadata :: "env \<Rightarrow> string \<Rightarrow> string \<Rightarrow> exn + json" where
  "get_track_metadata w track_id platform =
     reraise (''Failed to fetch '' @ platform @ '' metadata: '')
       (if platform = ''spotify'' then spotify_track w track_id else apple_song w track_id)"

definition search_by_isrc :: "env \<Rightarrow> json \<Rightarrow> string \<Rightarrow> exn + json" where
  "search_by_isrc w isrc platform =
     reraise (''Failed to search '' @ platform @ '' by ISRC: '')
       (if platform = ''spotify'' then spotify_isrc_search w isrc else apple_isrc_filter w isrc)"

definition search_by_metadata :: "env \<Rightarrow> json \<Rightarrow> json \<Rightarrow> string \<Rightarrow> exn + json" where
  "search_by_metadata w title artist platform =
     reraise (''Failed to search '' @ platform @ '' by metadata: '')
       (if platform = ''spotify'' then spotify_track_search w title artist
        else apple_song_search w title artist)"

subsection \<open>\<^verbatim>\<open>MusicServiceMatcher\<close>: one handler object per platform\<close>

fun handler_get_track_metadata :: "env \<Rightarrow> platform \<Rightarrow> string \<Rightarrow> exn + json" where
  "handler_get_track_metadata w spotify track_id =
     reraise ''Failed to fetch Spotify metadata: '' (spotify_track w track_id)"
| "handler_get_track_metadata w apple_music track_id =
     reraise ''Failed to fetch Apple Music metadata: '' (apple_song w track_id)"

fun handler_search_by_isrc :: "env \<Rightarrow> platform \<Rightarrow> json \<Rightarrow> exn + json" where
  "handler_search_by_isrc w spotify isrc =
     reraise ''Failed to search Spotify by ISRC: '' (spotify_isrc_search w isrc)"
| "handler_search_by_isrc w apple_music isrc =
     reraise ''Failed to search Apple Music by ISRC: '' (apple_isrc_filter w isrc)"

fun handler_search_by_metadata :: "env \<Rightarrow> platform \<Rightarrow> json \<Rightarrow> json \<Rightarrow> exn + json" where
  "handler_search_by_metadata w spotify title artist =
     reraise ''Failed to search Spotify by metadata: '' (spotify_track_search w title artist)"
| "handler_search_by_metadata w apple_music title artist =
     reraise ''Failed to search Apple Music by metadata: '' (apple_song_search w title artist)"

section \<open>Results and the cache\<close>

text \<open>
  The dataclass \<^verbatim>\<open>MatchResult\<close>. \<open>target_id\<close> holds whatever value the code stores
  there, \<open>JNull\<close> being \<^verbatim>\<open>None\<close>. The dataclass of \<^verbatim>\<open>songmatch.py\<close> has one more
  field, \<open>source_url\<close>, and may carry \<^verbatim>\<open>None\<close> in the first three fields when the
  URL does not parse. Below, the local variables \<^verbatim>\<open>source_platform\<close> and
  \<^verbatim>\<open>target_platform\<close> of the source are written \<open>src_platform\<close> and
  \<open>tgt_platform\<close>, the full names being the fields.
\<close>

record MatchResult =
  source_id :: "string option"
  source_platform :: "string option"
  target_platform :: "string option"
  target_id :: json
  target_url :: "string option"
  method_used :: "string option"
  match_score :: "real option"
  error :: "string option"
  success :: bool

record UrlMatchResult = MatchResult +
  source_url :: string

type_synonym cache = "string \<rightharpoonup> json"

text \<open>
  \<^verbatim>\<open>if cache_key in self.cache: cached_id = self.cache[cache_key]; if cached_id:\<close>
  gives the stored id when the key is present with a truthy value.
\<close>

definition cache_hit :: "cache \<Rightarrow> string \<Rightarrow> json option" where
  "cache_hit cache cache_key =
     (case cache cache_key of
        None \<Rightarrow> None
      | Some cached_id \<Rightarrow> if truthy cached_id then Some cached_id else None)"

section \<open>Normalizing the source track\<close>

text \<open>
  The extraction of title, artist and ISRC from the source metadata, the same
  statements in both files. \<open>None\<close> is the early return on an Apple Music body
  whose \<^verbatim>\<open>data\<close> is missing or empty.
\<close>

definition extract_source :: "string \<Rightarrow> json \<Rightarrow> exn + (json \<times> json \<times> json) option" where
  "extract_source src_platform metadata =
     (if src_platform = ''spotify'' then
        and_then (py_get metadata ''name'' (JStr [])) (\<lambda>title.
        and_then (py_get metadata ''artists'' (JArr [JObj []])) (\<lambda>artists.
        and_then (py_first artists) (\<lambda>first_artist.
        and_then (py_get first_artist ''name'' (JStr [])) (\<lambda>artist.
        and_then (py_get metadata ''external_ids'' (JObj [])) (\<lambda>external_ids.
        and_then (py_get external_ids ''isrc'' JNull) (\<lambda>isrc.
          Inr (Some (title, artist, isrc))))))))
      else
        and_then (py_get metadata ''data'' JNull) (\<lambda>d.
          if \<not> truthy d then Inr None
          else
            and_then (py_getitem metadata ''data'') (\<lambda>data.
            and_then (py_first data) (\<lambda>entry.
            and_then (py_getitem entry ''attributes'') (\<lambda>track.
            and_then (py_get track ''name'' (JStr [])) (\<lambda>title.
            and_then (py_get track ''artistName'' (JStr [])) (\<lambda>artist.
            and_then (py_get track ''isrc'' JNull) (\<lambda>isrc.
              Inr (Some (title, artist, isrc))))))))))"

section \<open>The ISRC attempt\<close>

text \<open>
  The first candidate of an ISRC search response, if the response has one:
  \<^verbatim>\<open>search_results["tracks"]["items"][0]\<close> when the target is Spotify and
  \<^verbatim>\<open>search_results.get("tracks", {}).get("items")\<close> is truthy,
  \<^verbatim>\<open>search_results["data"][0]\<close> when the target is Apple Music and
  \<^verbatim>\<open>search_results.get("data")\<close> is truthy.
\<close>

definition isrc_first_candidate :: "string \<Rightarrow> json \<Rightarrow> exn + json option" where
  "isrc_first_candidate tgt_platform search_results =
     (if tgt_platform = ''spotify'' then
        and_then (py_get search_results ''tracks'' (JObj [])) (\<lambda>t.
        and_then (py_get t ''items'' JNull) (\<lambda>items.
          if truthy items then
            and_then (py_getitem search_results ''tracks'') (\<lambda>tracks.
            and_then (py_getitem tracks ''items'') (\<lambda>its.
            and_then (py_first its) (\<lambda>track. Inr (Some track))))
          else Inr None))
      else if tgt_platform = ''apple_music'' then
        and_then (py_get search_results ''data'' JNull) (\<lambda>d.
          if truthy d then
            and_then (py_getitem search_results ''data'') (\<lambda>data.
            and_then (py_first data) (\<lambda>track. Inr (Some track)))
          else Inr None)
      else Inr None)"

section \<open>The metadata attempt\<close>

text \<open>The dictionary \<^verbatim>\<open>best_match\<close>; its title and artist entries in
  \<^verbatim>\<open>songmatch.py\<close> are only printed.\<close>

record best_match =
  bm_id :: json
  bm_score :: real

text \<open>Title and artist of one search result, by target platform.\<close>

definition track_fields :: "string \<Rightarrow> json \<Rightarrow> exn + json \<times> json" where
  "track_fields tgt_platform track =
     (if tgt_platform = ''apple_music'' then
        and_then (py_get track ''attributes'' (JObj [])) (\<lambda>a1.
        and_then (py_get a1 ''name'' (JStr [])) (\<lambda>track_title.
        and_then (py_get track ''attributes'' (JObj [])) (\<lambda>a2.
        and_then (py_get a2 ''artistName'' (JStr [])) (\<lambda>track_artist.
          Inr (track_title, track_artist)))))
      else
        and_then (py_get track ''name'' (JStr [])) (\<lambda>track_title.
        and_then (py_get track ''artists'' (JArr [JObj []])) (\<lambda>artists.
        and_then (py_first artists) (\<lambda>first_artist.
        and_then (py_get first_artist ''name'' (JStr [])) (\<lambda>track_artist.
          Inr (track_title, track_artist))))))"

text \<open>
  One pass of the loop body up to \<^verbatim>\<open>total_score\<close>: \<open>None\<close> is the \<^verbatim>\<open>continue\<close>
  on a result without title or artist. \<open>score\<close> is the similarity in use.
\<close>

definition total_score ::
  "(json \<Rightarrow> json \<Rightarrow> exn + real) \<Rightarrow> string \<Rightarrow> json \<Rightarrow> json \<Rightarrow> json \<Rightarrow> exn + real option" where
  "total_score score tgt_platform source_title source_artist track =
     and_then (track_fields tgt_platform track) (\<lambda>(track_title, track_artist).
       if \<not> truthy track_title \<or> \<not> truthy track_artist then Inr None
       else
         and_then (score source_title track_title) (\<lambda>title_score.
         and_then (score source_artist track_artist) (\<lambda>artist_score.
           Inr (Some ((title_score + artist_score) / 2)))))"

text \<open>
  The loop \<^verbatim>\<open>for track in results_data\<close> with its two variables \<^verbatim>\<open>best_match\<close>
  and \<^verbatim>\<open>best_score\<close>.
\<close>

fun best_match_loop ::
  "(json \<Rightarrow> json \<Rightarrow> exn + real) \<Rightarrow> string \<Rightarrow> json \<Rightarrow> json \<Rightarrow> json list \<Rightarrow>
   best_match option \<Rightarrow> real \<Rightarrow> exn + best_match option \<times> real" where
  "best_match_loop score tp source_title source_artist [] best best_score = Inr (best, best_score)"
| "best_match_loop score tp source_title source_artist (track # rest) best best_score =
     (case total_score score tp source_title source_artist track of
        Inl e \<Rightarrow> Inl e
      | Inr None \<Rightarrow> best_match_loop score tp source_title source_artist rest best best_score
      | Inr (Some sc) \<Rightarrow>
          if sc > best_score then
            (case py_get track ''id'' JNull of
               Inl e \<Rightarrow> Inl e
             | Inr i \<Rightarrow>
                 best_match_loop score tp source_title source_artist rest
                   (Some \<lparr>bm_id = i, bm_score = sc\<rparr>) sc)
          else best_match_loop score tp source_title source_artist rest best best_score)"

text \<open>\<^verbatim>\<open>results_data\<close>, the list of search results by target platform.\<close>

definition results_data :: "string \<Rightarrow> json \<Rightarrow> exn + json" where
  "results_data tgt_platform search_results =
     (if tgt_platform = ''apple_music'' then
        and_then (py_get search_results ''results'' (JObj [])) (\<lambda>r.
        and_then (py_get r ''songs'' (JObj [])) (\<lambda>songs.
          py_get songs ''data'' (JArr [])))
      else
        and_then (py_get search_results ''tracks'' (JObj [])) (\<lambda>t.
          py_get t ''items'' (JArr [])))"

text \<open>
  \<^verbatim>\<open>_find_best_match\<close> of \<^verbatim>\<open>songmatch.py\<close>; \<^verbatim>\<open>match_track_id\<close> of
  \<^verbatim>\<open>platform_matcher.py\<close> has the same statements inline. The best match is kept
  only if \<^verbatim>\<open>best_match["score"] > 0.8\<close>.
\<close>

definition find_best_match ::
  "(json \<Rightarrow> json \<Rightarrow> exn + real) \<Rightarrow> json \<Rightarrow> json \<Rightarrow> json \<Rightarrow> string \<Rightarrow> exn + best_match option" where
  "find_best_match score search_results source_title source_artist tgt_platform =
     and_then (results_data tgt_platform search_results) (\<lambda>data.
     and_then (py_iter data) (\<lambda>tracks.
     and_then (best_match_loop score tgt_platform source_title source_artist tracks None 0)
       (\<lambda>(best, best_score).
          case best of
            None \<Rightarrow> Inr None
          | Some b \<Rightarrow> if bm_score b > 0.8 then Inr (Some b) else Inr None)))"

section \<open>The resolver of \<^verbatim>\<open>platform_matcher.py\<close>\<close>

text \<open>
  A resolver returns the result, the cache after the call and the platform calls it
  made. The stages below give the outcome of a block of the \<^verbatim>\<open>try\<close> body (an
  exception, or a value) together with the calls of that block.
\<close>

definition no_match :: "'a MatchResult_scheme \<Rightarrow> cache \<Rightarrow> string \<Rightarrow> 'a MatchResult_scheme \<times> cache" where
  "no_match result cache cache_key =
     (result\<lparr>error := Some ''No suitable match found''\<rparr>, cache(cache_key \<mapsto> JNull))"

text \<open>The block \<^verbatim>\<open>if isrc:\<close>; \<open>None\<close> means that control falls through.\<close>

definition isrc_attempt ::
  "env \<Rightarrow> cache \<Rightarrow> string \<Rightarrow> MatchResult \<Rightarrow> string \<Rightarrow> json \<Rightarrow>
   (exn + (MatchResult \<times> cache) option) \<times> call list" where
  "isrc_attempt w cache tgt_platform result cache_key isrc =
     (if truthy isrc then
        ((case search_by_isrc w isrc tgt_platform of
            Inl e \<Rightarrow> Inl e
          | Inr search_results \<Rightarrow>
              (case isrc_first_candidate tgt_platform search_results of
                 Inl e \<Rightarrow> Inl e
               | Inr None \<Rightarrow> Inr None
               | Inr (Some track) \<Rightarrow>
                   (case py_getitem track ''id'' of
                      Inl e \<Rightarrow> Inl e
                    | Inr i \<Rightarrow>
                        Inr (Some (result\<lparr>target_id := i, method_used := Some ''isrc_match'',
                                          success := True\<rparr>,
                                   cache(cache_key \<mapsto> i)))))),
         [Search_by_isrc tgt_platform isrc])
      else (Inr None, []))"

text \<open>The block \<^verbatim>\<open>if title and artist:\<close> and the statements after it.\<close>

definition metadata_attempt ::
  "env \<Rightarrow> cache \<Rightarrow> string \<Rightarrow> MatchResult \<Rightarrow> string \<Rightarrow> json \<Rightarrow> json \<Rightarrow>
   (exn + MatchResult \<times> cache) \<times> call list" where
  "metadata_attempt w cache tgt_platform result cache_key title artist =
     (if truthy title \<and> truthy artist then
        ((case search_by_metadata w title artist tgt_platform of
            Inl e \<Rightarrow> Inl e
          | Inr search_results \<Rightarrow>
              (case find_best_match calculate_similarity search_results title artist tgt_platform of
                 Inl e \<Rightarrow> Inl e
               | Inr (Some best) \<Rightarrow>
                   Inr (result\<lparr>target_id := bm_id best, method_used := Some ''metadata_match'',
                               match_score := Some (bm_score best), success := True\<rparr>,
                        cache(cache_key \<mapsto> bm_id best))
               | Inr None \<Rightarrow> Inr (no_match result cache cache_key))),
         [Search_by_metadata tgt_platform title artist])
      else (Inr (no_match result cache cache_key), []))"

text \<open>The body of the \<^verbatim>\<open>try\<close> statement of \<^verbatim>\<open>match_track_id\<close>.\<close>

definition match_track_id_body ::
  "env \<Rightarrow> cache \<Rightarrow> string \<Rightarrow> string \<Rightarrow> string \<Rightarrow> MatchResult \<Rightarrow>
   (exn + MatchResult \<times> cache) \<times> call list" where
  "match_track_id_body w cache track_id src_platform tgt_platform result =
     (let cache_key = src_platform @ '':'' @ track_id in
      case cache_hit cache cache_key of
        Some cached_id \<Rightarrow>
          (Inr (result\<lparr>target_id := cached_id, method_used := Some ''cache'', success := True\<rparr>,
                cache), [])
      | None \<Rightarrow>
          (case and_then (get_track_metadata w track_id src_platform) (extract_source src_platform) of
             Inl e \<Rightarrow> (Inl e, [Fetch_by_id src_platform track_id])
           | Inr None \<Rightarrow>
               (Inr (result\<lparr>error := Some ''No track data found''\<rparr>, cache),
                [Fetch_by_id src_platform track_id])
           | Inr (Some (title, artist, isrc)) \<Rightarrow>
               (case isrc_attempt w cache tgt_platform result cache_key isrc of
                  (Inl e, calls) \<Rightarrow> (Inl e, Fetch_by_id src_platform track_id # calls)
                | (Inr (Some found), calls) \<Rightarrow>
                    (Inr found, Fetch_by_id src_platform track_id # calls)
                | (Inr None, calls) \<Rightarrow>
                    (case metadata_attempt w cache tgt_platform result cache_key title artist of
                       (outcome, calls') \<Rightarrow>
                         (outcome, Fetch_by_id src_platform track_id # calls @ calls')))))"

text \<open>
  \<^verbatim>\<open>PlatformMatcher.match_track_id\<close>. The clause \<^verbatim>\<open>except Exception as e\<close> puts
  \<^verbatim>\<open>str(e)\<close> into the result; the cache is written only just before a
  \<^verbatim>\<open>return\<close>, so an exception leaves it as it was.
\<close>

definition match_track_id ::
  "env \<Rightarrow> cache \<Rightarrow> string \<Rightarrow> string \<Rightarrow> MatchResult \<times> cache \<times> call list" where
  "match_track_id w cache track_id src_platform =
     (let tgt_platform = (if src_platform = ''spotify'' then ''apple_music'' else ''spotify'');
          result = \<lparr>source_id = Some track_id, source_platform = Some src_platform,
                    target_platform = Some tgt_platform, target_id = JNull, target_url = None,
                    method_used = None, match_score = None, error = None, success = False\<rparr>
      in case match_track_id_body w cache track_id src_platform tgt_platform result of
           (Inl e, calls) \<Rightarrow> (result\<lparr>error := Some (str e)\<rparr>, cache, calls)
         | (Inr (result', cache'), calls) \<Rightarrow> (result', cache', calls))"

section \<open>The resolver of \<^verbatim>\<open>songmatch.py\<close>\<close>

text \<open>
  \<^verbatim>\<open>create_target_url\<close>; its \<^verbatim>\<open>ValueError\<close> is for a platform name other than
  the two, which \<open>platform\<close> does not have.
\<close>

fun create_target_url :: "env \<Rightarrow> platform \<Rightarrow> json \<Rightarrow> string" where
  "create_target_url w spotify track_id = ''https://open.spotify.com/track/'' @ format_value w track_id"
| "create_target_url w apple_music track_id = ''https://music.apple.com/us/song/'' @ format_value w track_id"

text \<open>The similarity in use: \<^verbatim>\<open>jellyfish.jaro_winkler(a.lower(), b.lower())\<close>.\<close>

definition jaro_winkler_lower :: "env \<Rightarrow> json \<Rightarrow> json \<Rightarrow> exn + real" where
  "jaro_winkler_lower w a b =
     and_then (py_lower a) (\<lambda>x. and_then (py_lower b) (\<lambda>y. Inr (jaro_winkler w x y)))"

text \<open>The fields of the ISRC candidate that the \<^verbatim>\<open>print\<close> after the assignment reads.\<close>

fun isrc_display :: "platform \<Rightarrow> json \<Rightarrow> exn + unit" where
  "isrc_display spotify track =
     and_then (py_getitem track ''name'') (\<lambda>n.
     and_then (py_getitem track ''artists'') (\<lambda>artists.
     and_then (py_first artists) (\<lambda>first_artist.
     and_then (py_getitem first_artist ''name'') (\<lambda>a. Inr ()))))"
| "isrc_display apple_music track =
     and_then (py_getitem track ''attributes'') (\<lambda>a1.
     and_then (py_getitem a1 ''name'') (\<lambda>n.
     and_then (py_getitem track ''attributes'') (\<lambda>a2.
     and_then (py_getitem a2 ''artistName'') (\<lambda>a. Inr ()))))"

text \<open>
  The \<^verbatim>\<open>if\<close>/\<^verbatim>\<open>elif\<close> under \<^verbatim>\<open>if search_results:\<close>. It assigns
  \<^verbatim>\<open>result.target_id\<close> and then prints; an exception of the \<^verbatim>\<open>print\<close> leaves the
  assignment in place.
\<close>

definition isrc_select :: "platform \<Rightarrow> json \<Rightarrow> UrlMatchResult \<Rightarrow> UrlMatchResult \<times> (exn + unit)" where
  "isrc_select tgt_platform search_results result =
     (case isrc_first_candidate (platform_name tgt_platform) search_results of
        Inl e \<Rightarrow> (result, Inl e)
      | Inr None \<Rightarrow> (result, Inr ())
      | Inr (Some track) \<Rightarrow>
          (case py_getitem track ''id'' of
             Inl e \<Rightarrow> (result, Inl e)
           | Inr i \<Rightarrow> (result\<lparr>target_id := i\<rparr>, isrc_display tgt_platform track)))"

text \<open>
  The block \<^verbatim>\<open>if isrc:\<close> with its own \<^verbatim>\<open>try\<close>: every exception is printed and
  control falls through. The flag tells whether the block returned.
\<close>

definition isrc_block ::
  "env \<Rightarrow> cache \<Rightarrow> platform \<Rightarrow> UrlMatchResult \<Rightarrow> string \<Rightarrow> json \<Rightarrow>
   (UrlMatchResult \<times> cache \<times> bool) \<times> call list" where
  "isrc_block w cache tgt_platform result cache_key isrc =
     (if truthy isrc then
        ((case handler_search_by_isrc w tgt_platform isrc of
            Inl e \<Rightarrow> (result, cache, False)
          | Inr search_results \<Rightarrow>
              if truthy search_results then
                (case isrc_select tgt_platform search_results result of
                   (result1, Inl e) \<Rightarrow> (result1, cache, False)
                 | (result1, Inr u) \<Rightarrow>
                     if truthy (target_id result1) then
                       (result1\<lparr>target_url := Some (create_target_url w tgt_platform (target_id result1)),
                                method_used := Some ''isrc_match'', success := True\<rparr>,
                        cache(cache_key \<mapsto> target_id result1), True)
                     else (result1, cache, False))
              else (result, cache, False)),
         [Search_by_isrc (platform_name tgt_platform) isrc])
      else ((result, cache, False), []))"

text \<open>
  The block \<^verbatim>\<open>if title and artist:\<close> with its own \<^verbatim>\<open>try\<close>, and the statements
  after it.
\<close>

definition metadata_block ::
  "env \<Rightarrow> cache \<Rightarrow> platform \<Rightarrow> UrlMatchResult \<Rightarrow> string \<Rightarrow> json \<Rightarrow> json \<Rightarrow>
   UrlMatchResult \<times> cache \<times> call list" where
  "metadata_block w cache tgt_platform result cache_key title artist =
     (if truthy title \<and> truthy artist then
        (case and_then (handler_search_by_metadata w tgt_platform title artist) (\<lambda>search_results.
                find_best_match (jaro_winkler_lower w) search_results title artist
                  (platform_name tgt_platform)) of
           Inl e \<Rightarrow>
             (result\<lparr>error := Some (''Metadata search failed: '' @ str e)\<rparr>, cache,
              [Search_by_metadata (platform_name tgt_platform) title artist])
         | Inr (Some best) \<Rightarrow>
             (result\<lparr>target_id := bm_id best,
                      target_url := Some (create_target_url w tgt_platform (bm_id best)),
                      method_used := Some ''metadata_match'',
                      match_score := Some (bm_score best), success := True\<rparr>,
              cache(cache_key \<mapsto> bm_id best),
              [Search_by_metadata (platform_name tgt_platform) title artist])
         | Inr None \<Rightarrow>
             (case no_match result cache cache_key of
                (result', cache') \<Rightarrow>
                  (result', cache', [Search_by_metadata (platform_name tgt_platform) title artist])))
      else (case no_match result cache cache_key of (result', cache') \<Rightarrow> (result', cache', [])))"

text \<open>
  \<^verbatim>\<open>MusicServiceMatcher.match_track\<close>. The outermost \<^verbatim>\<open>except\<close> is reached only
  when the URL does not parse; the \<^verbatim>\<open>except\<close> around the source metadata is
  reached only from the fetch and the extraction, the two blocks after them
  catching their own exceptions.
\<close>

definition match_track :: "env \<Rightarrow> cache \<Rightarrow> string \<Rightarrow> UrlMatchResult \<times> cache \<times> call list" where
  "match_track w cache url =
     (case parse_music_url w url of
        Inl e \<Rightarrow>
          (\<lparr>source_id = None, source_platform = None, target_platform = None, target_id = JNull,
            target_url = None, method_used = None, match_score = None, error = Some (str e),
            success = False, source_url = url\<rparr>, cache, [])
      | Inr (src_platform, src_id) \<Rightarrow>
          (let tgt_platform = (if src_platform = spotify then apple_music else spotify);
               result = \<lparr>source_id = Some src_id, source_platform = Some (platform_name src_platform),
                         target_platform = Some (platform_name tgt_platform), target_id = JNull,
                         target_url = None, method_used = None, match_score = None, error = None,
                         success = False, source_url = url\<rparr>;
               cache_key = platform_name src_platform @ '':'' @ src_id;
               fetch = Fetch_by_id (platform_name src_platform) src_id
           in case cache_hit cache cache_key of
                Some cached_id \<Rightarrow>
                  (result\<lparr>target_id := cached_id,
                           target_url := Some (create_target_url w tgt_platform cached_id),
                           method_used := Some ''cache'', success := True\<rparr>, cache, [])
              | None \<Rightarrow>
                  (case and_then (handler_get_track_metadata w src_platform src_id)
                          (extract_source (platform_name src_platform)) of
                     Inl e \<Rightarrow>
                       (result\<lparr>error := Some (''Failed to get source metadata: '' @ str e)\<rparr>,
                        cache, [fetch])
                   | Inr None \<Rightarrow>
                       (result\<lparr>error := Some ''No track data found in Apple Music response''\<rparr>,
                        cache, [fetch])
                   | Inr (Some (title, artist, isrc)) \<Rightarrow>
                       (case isrc_block w cache tgt_platform result cache_key isrc of
                          ((result1, cache1, returned), calls) \<Rightarrow>
                            if returned then (result1, cache1, fetch # calls)
                            else
                              (case metadata_block w cache1 tgt_platform result1 cache_key title artist of
                                 (result2, cache2, calls') \<Rightarrow>
                                   (result2, cache2, fetch # calls @ calls'))))))"

section \<open>Example responses\<close>

text \<open>
  Decoded bodies in the shape the two web services use, and an environment in which
  every request fails; the examples below override single fields of it. Its URL
  parser knows one Spotify link and one Apple Music link.
\<close>

definition spotify_track_json :: "json \<Rightarrow> string \<Rightarrow> string \<Rightarrow> json \<Rightarrow> json" where
  "spotify_track_json i name artist isrc =
     JObj [(''id'', i), (''name'', JStr name), (''artists'', JArr [JObj [(''name'', JStr artist)]]),
           (''external_ids'', JObj [(''isrc'', isrc)])]"

definition spotify_search_json :: "json list \<Rightarrow> json" where
  "spotify_search_json items = JObj [(''tracks'', JObj [(''items'', JArr items)])]"

definition apple_song_json :: "json \<Rightarrow> string \<Rightarrow> string \<Rightarrow> json" where
  "apple_song_json i name artist =
     JObj [(''id'', i), (''attributes'', JObj [(''name'', JStr name), (''artistName'', JStr artist)])]"

definition apple_search_json :: "json list \<Rightarrow> json" where
  "apple_search_json songs = JObj [(''results'', JObj [(''songs'', JObj [(''data'', JArr songs)])])]"

definition offline :: env where
  "offline =
     \<lparr>spotify_track = (\<lambda>i. Inl (RequestException ''offline'')),
      spotify_isrc_search = (\<lambda>i. Inl (RequestException ''offline'')),
      spotify_track_search = (\<lambda>t a. Inl (RequestException ''offline'')),
      apple_song = (\<lambda>i. Inl (RequestException ''offline'')),
      apple_isrc_filter = (\<lambda>i. Inl (RequestException ''offline'')),
      apple_song_search = (\<lambda>t a. Inl (RequestException ''offline'')),
      format_value = (\<lambda>v. case v of JStr s \<Rightarrow> s | _ \<Rightarrow> ''None''),
      jaro_winkler = (\<lambda>a b. if a = b then 1 else 0),
      parse_music_url = (\<lambda>url.
        if url = ''https://open.spotify.com/track/t1'' then Inr (spotify, ''t1'')
        else if url = ''https://music.apple.com/us/song/x/77'' then Inr (apple_music, ''77'')
        else Inl (ValueError (''Invalid or unsupported music URL: '' @ url)))\<rparr>"


text \<open>The result object as both resolvers create it for the Apple Music track \<open>77\<close>.\<close>

definition fresh_result :: MatchResult where
  "fresh_result =
     \<lparr>source_id = Some ''77'', source_platform = Some ''apple_music'',
      target_platform = Some ''spotify'', target_id = JNull, target_url = None,
      method_used = None, match_score = None, error = None, success = False\<rparr>"

definition fresh_url_result :: UrlMatchResult where
  "fresh_url_result =
     \<lparr>source_id = Some ''77'', source_platform = Some ''apple_music'',
      target_platform = Some ''spotify'', target_id = JNull, target_url = None,
      method_used = None, match_score = None, error = None, success = False,
      source_url = ''https://music.apple.com/us/song/x/77''\<rparr>"


text \<open>
  The body of the Apple Music song lookup for a track \<open>abcde\<close> by \<open>B\<close> with the
  given ISRC entry.
\<close>

definition apple_source_json :: "json \<Rightarrow> json" where
  "apple_source_json isrc =
     JObj [(''data'', JArr [JObj [(''id'', JStr ''77''),
        (''attributes'', JObj [(''name'', JStr ''abcde''), (''artistName'', JStr ''B''),
                               (''isrc'', isrc)])]])]"

text \<open>
  Four situations for the Apple Music track \<open>77\<close>: Spotify knows nothing alike;
  the ISRC search is down while the metadata search has a perfect match; the only
  search result matches but carries no id; the ISRC search has a candidate while
  the metadata search has another.
\<close>

definition nothing_alike :: env where
  "nothing_alike =
     offline\<lparr>apple_song := \<lambda>i. Inr (apple_source_json JNull),
             spotify_track_search := \<lambda>t a. Inr (spotify_search_json [])\<rparr>"

definition isrc_search_down :: env where
  "isrc_search_down =
     offline\<lparr>apple_song := \<lambda>i. Inr (apple_source_json (JStr ''US1'')),
             spotify_isrc_search := \<lambda>i. Inl (RequestException ''503''),
             spotify_track_search := \<lambda>t a.
               Inr (spotify_search_json [spotify_track_json (JStr ''b'') ''abcde'' ''B'' JNull])\<rparr>"

definition result_without_id :: env where
  "result_without_id =
     offline\<lparr>apple_song := \<lambda>i. Inr (apple_source_json JNull),
             spotify_track_search := \<lambda>t a.
               Inr (spotify_search_json
                 [JObj [(''name'', JStr ''abcde''), (''artists'', JArr [JObj [(''name'', JStr ''B'')]])]])\<rparr>"

definition isrc_and_metadata :: env where
  "isrc_and_metadata =
     offline\<lparr>apple_song := \<lambda>i. Inr (apple_source_json (JStr ''US1'')),
             spotify_isrc_search := \<lambda>i.
               Inr (spotify_search_json [spotify_track_json (JStr ''i1'') ''zzzzz'' ''Q'' (JStr ''US1'')]),
             spotify_track_search := \<lambda>t a.
               Inr (spotify_search_json [spotify_track_json (JStr ''b'') ''abcde'' ''B'' JNull])\<rparr>"

text \<open>A fifth situation: the candidates of both Spotify searches carry an empty id.\<close>

definition empty_target_id :: env where
  "empty_target_id =
     offline\<lparr>apple_song := \<lambda>i. Inr (apple_source_json (JStr ''US1'')),
             spotify_isrc_search := \<lambda>i.
               Inr (spotify_search_json [spotify_track_json (JStr []) ''abcde'' ''B'' (JStr ''US1'')]),
             spotify_track_search := \<lambda>t a.
               Inr (spotify_search_json [spotify_track_json (JStr []) ''abcde'' ''B'' JNull])\<rparr>"

section \<open>Properties of the similarity scorer\<close>










section \<open>Properties of the metadata attempt\<close>













lemmas example_defs = spotify_track_json_def spotify_search_json_def apple_song_json_def
  apple_search_json_def



section \<open>Scoring failures\<close>





section \<open>Properties of the resolvers\<close>

lemmas resolver_defs = match_track_id_def match_track_id_body_def cache_hit_def get_track_metadata_def
  extract_source_def isrc_attempt_def metadata_attempt_def search_by_isrc_def search_by_metadata_def
  isrc_first_candidate_def find_best_match_def results_data_def no_match_def Let_def

lemmas url_resolver_defs = match_track_def cache_hit_def extract_source_def isrc_block_def
  isrc_select_def metadata_block_def isrc_first_candidate_def find_best_match_def results_data_def
  no_match_def jaro_winkler_lower_def Let_def

lemmas scenario_defs = offline_def nothing_alike_def isrc_search_down_def result_without_id_def
  isrc_and_metadata_def apple_source_json_def fresh_result_def fresh_url_result_def

subsection \<open>Failure of the source step\<close>

lemma match_track_id_source_raises:
  assumes "cache_hit cache (src @ '':'' @ tid) = None"
    and "and_then (get_track_metadata w tid src) (extract_source src) = Inl e"
  shows "match_track_id w cache tid src =
     (\<lparr>source_id = Some tid, source_platform = Some src,
       target_platform = Some (if src = ''spotify'' then ''apple_music'' else ''spotify''),
       target_id = JNull, target_url = None, method_used = None, match_score = None,
       error = Some (str e), success = False\<rparr>, cache, [Fetch_by_id src tid])"
  using assms by (simp add: match_track_id_def match_track_id_body_def Let_def)

lemma match_track_id_source_empty:
  assumes "cache_hit cache (src @ '':'' @ tid) = None"
    and "and_then (get_track_metadata w tid src) (extract_source src) = Inr None"
  shows "match_track_id w cache tid src =
     (\<lparr>source_id = Some tid, source_platform = Some src,
       target_platform = Some (if src = ''spotify'' then ''apple_music'' else ''spotify''),
       target_id = JNull, target_url = None, method_used = None, match_score = None,
       error = Some ''No track data found'', success = False\<rparr>, cache, [Fetch_by_id src tid])"
  using assms by (simp add: match_track_id_def match_track_id_body_def Let_def)

lemma match_track_source_raises:
  assumes "parse_music_url w url = Inr (p, sid)"
    and "cache_hit cache (platform_name p @ '':'' @ sid) = None"
    and "and_then (handler_get_track_metadata w p sid) (extract_source (platform_name p)) = Inl e"
  shows "match_track w cache url =
     (\<lparr>source_id = Some sid, source_platform = Some (platform_name p),
       target_platform = Some (platform_name (if p = spotify then apple_music else spotify)),
       target_id = JNull, target_url = None, method_used = None, match_score = None,
       error = Some (''Failed to get source metadata: '' @ str e), success = False,
       source_url = url\<rparr>, cache, [Fetch_by_id (platform_name p) sid])"
  using assms by (simp add: match_track_def Let_def)

lemma match_track_source_empty:
  assumes "parse_music_url w url = Inr (p, sid)"
    and "cache_hit cache (platform_name p @ '':'' @ sid) = None"
    and "and_then (handler_get_track_metadata w p sid) (extract_source (platform_name p)) = Inr None"
  shows "match_track w cache url =
     (\<lparr>source_id = Some sid, source_platform = Some (platform_name p),
       target_platform = Some (platform_name (if p = spotify then apple_music else spotify)),
       target_id = JNull, target_url = None, method_used = None, match_score = None,
       error = Some ''No track data found in Apple Music response'', success = False,
       source_url = url\<rparr>, cache, [Fetch_by_id (platform_name p) sid])"
  using assms by (simp add: match_track_def Let_def)

text \<open>
  Claim C6. When no cached id answers the call and the source step fails (the fetch
  or the extraction raises, or the Apple Music body has no \<^verbatim>\<open>data\<close>), either
  resolver returns a result instead of raising: \<open>error\<close> holds the message,
  \<open>success\<close> is false, no target id is set, the cache is returned as it was and the
  source fetch is the only platform call. \<^verbatim>\<open>match_track_id\<close> stores \<^verbatim>\<open>str(e)\<close>,
  \<^verbatim>\<open>match_track\<close> stores it after "Failed to get source metadata: ".
\<close>

theorem source_failure_is_reported:
  "(cache_hit cache (src @ '':'' @ tid) = None
      \<and> and_then (get_track_metadata w tid src) (extract_source src) = Inl e
    \<longrightarrow> (case match_track_id w cache tid src of
          (r, cache', calls) \<Rightarrow>
             error r = Some (str e) \<and> \<not> success r \<and> target_id r = JNull \<and> cache' = cache
             \<and> calls = [Fetch_by_id src tid]))
   \<and> (cache_hit cache (src @ '':'' @ tid) = None
      \<and> and_then (get_track_metadata w tid src) (extract_source src) = Inr None
    \<longrightarrow> (case match_track_id w cache tid src of
          (r, cache', calls) \<Rightarrow>
             error r = Some ''No track data found'' \<and> \<not> success r \<and> target_id r = JNull
             \<and> cache' = cache \<and> calls = [Fetch_by_id src tid]))
   \<and> (parse_music_url w url = Inr (p, sid)
      \<and> cache_hit cache (platform_name p @ '':'' @ sid) = None
      \<and> and_then (handler_get_track_metadata w p sid) (extract_source (platform_name p)) = Inl e
    \<longrightarrow> (case match_track w cache url of
          (r, cache', calls) \<Rightarrow>
             error r = Some (''Failed to get source metadata: '' @ str e) \<and> \<not> success r
             \<and> target_id r = JNull \<and> cache' = cache
             \<and> calls = [Fetch_by_id (platform_name p) sid]))
   \<and> (parse_music_url w url = Inr (p, sid)
      \<and> cache_hit cache (platform_name p @ '':'' @ sid) = None
      \<and> and_then (handler_get_track_metadata w p sid) (extract_source (platform_name p)) = Inr None
    \<longrightarrow> (case match_track w cache url of
          (r, cache', calls) \<Rightarrow>
             error r = Some ''No track data found in Apple Music response'' \<and> \<not> success r
             \<and> target_id r = JNull \<and> cache' = cache
             \<and> calls = [Fetch_by_id (platform_name p) sid]))"
proof (intro conjI impI)
  assume "cache_hit cache (src @ '':'' @ tid) = None
      \<and> and_then (get_track_metadata w tid src) (extract_source src) = Inl e"
  then show "case match_track_id w cache tid src of
          (r, cache', calls) \<Rightarrow>
             error r = Some (str e) \<and> \<not> success r \<and> target_id r = JNull \<and> cache' = cache
             \<and> calls = [Fetch_by_id src tid]"
    by (simp add: match_track_id_source_raises)
next
  assume "cache_hit cache (src @ '':'' @ tid) = None
      \<and> and_then (get_track_metadata w tid src) (extract_source src) = Inr None"
  then show "case match_track_id w cache tid src of
          (r, cache', calls) \<Rightarrow>
             error r = Some ''No track data found'' \<and> \<not> success r \<and> target_id r = JNull
             \<and> cache' = cache \<and> calls = [Fetch_by_id src tid]"
    by (simp add: match_track_id_source_empty)
next
  assume "parse_music_url w url = Inr (p, sid)
      \<and> cache_hit cache (platform_name p @ '':'' @ sid) = None
      \<and> and_then (handler_get_track_metadata w p sid) (extract_source (platform_name p)) = Inl e"
  then show "case match_track w cache url of
          (r, cache', calls) \<Rightarrow>
             error r = Some (''Failed to get source metadata: '' @ str e) \<and> \<not> success r
             \<and> target_id r = JNull \<and> cache' = cache
             \<and> calls = [Fetch_by_id (platform_name p) sid]"
    by (simp add: match_track_source_raises)
next
  assume "parse_music_url w url = Inr (p, sid)
      \<and> cache_hit cache (platform_name p @ '':'' @ sid) = None
      \<and> and_then (handler_get_track_metadata w p sid) (extract_source (platform_name p)) = Inr None"
  then show "case match_track w cache url of
          (r, cache', calls) \<Rightarrow>
             error r = Some ''No track data found in Apple Music response'' \<and> \<not> success r
             \<and> target_id r = JNull \<and> cache' = cache
             \<and> calls = [Fetch_by_id (platform_name p) sid]"
    by (simp add: match_track_source_empty)
qed


theorem source_failure_is_reported_witness:
  "cache_hit Map.empty (''apple_music'' @ '':'' @ ''77'') = None
   \<and> and_then (get_track_metadata offline ''77'' ''apple_music'') (extract_source ''apple_music'')
       = Inl (Exception ''Failed to fetch apple_music metadata: offline'')
   \<and> error (fst (match_track_id offline Map.empty ''77'' ''apple_music''))
       = Some ''Failed to fetch apple_music metadata: offline''
   \<and> snd (match_track_id offline Map.empty ''77'' ''apple_music'')
       = (Map.empty, [Fetch_by_id ''apple_music'' ''77''])
   \<and> and_then (get_track_metadata (offline\<lparr>apple_song := \<lambda>i. Inr (JObj [(''data'', JArr [])])\<rparr>)
         ''77'' ''apple_music'') (extract_source ''apple_music'') = Inr None
   \<and> error (fst (match_track_id (offline\<lparr>apple_song := \<lambda>i. Inr (JObj [(''data'', JArr [])])\<rparr>)
         Map.empty ''77'' ''apple_music'')) = Some ''No track data found''
   \<and> parse_music_url offline ''https://music.apple.com/us/song/x/77'' = Inr (apple_music, ''77'')
   \<and> and_then (handler_get_track_metadata offline apple_music ''77'')
         (extract_source (platform_name apple_music))
       = Inl (Exception ''Failed to fetch Apple Music metadata: offline'')
   \<and> error (fst (match_track offline Map.empty ''https://music.apple.com/us/song/x/77''))
       = Some ''Failed to get source metadata: Failed to fetch Apple Music metadata: offline''
   \<and> snd (match_track offline Map.empty ''https://music.apple.com/us/song/x/77'')
       = (Map.empty, [Fetch_by_id ''apple_music'' ''77''])
   \<and> error (fst (match_track (offline\<lparr>apple_song := \<lambda>i. Inr (JObj [(''data'', JArr [])])\<rparr>)
         Map.empty ''https://music.apple.com/us/song/x/77''))
       = Some ''No track data found in Apple Music response''"
proof -
  let ?empty = "offline\<lparr>apple_song := \<lambda>i. Inr (JObj [(''data'', JArr [])])\<rparr>"
  let ?url = "''https://music.apple.com/us/song/x/77''"
  have miss: "cache_hit Map.empty (''apple_music'' @ '':'' @ ''77'') = None"
    by (simp add: cache_hit_def)
  have miss': "cache_hit Map.empty (platform_name apple_music @ '':'' @ ''77'') = None"
    by (simp add: cache_hit_def)
  have raises: "and_then (get_track_metadata offline ''77'' ''apple_music'')
      (extract_source ''apple_music'') = Inl (Exception ''Failed to fetch apple_music metadata: offline'')"
    by (simp add: get_track_metadata_def offline_def)
  have empty: "and_then (get_track_metadata ?empty ''77'' ''apple_music'')
      (extract_source ''apple_music'') = Inr None"
    by (simp add: get_track_metadata_def extract_source_def offline_def)
  have parse: "parse_music_url offline ?url = Inr (apple_music, ''77'')"
    by (simp add: offline_def)
  have parse': "parse_music_url ?empty ?url = Inr (apple_music, ''77'')"
    by (simp add: offline_def)
  have raises': "and_then (handler_get_track_metadata offline apple_music ''77'')
      (extract_source (platform_name apple_music))
      = Inl (Exception ''Failed to fetch Apple Music metadata: offline'')"
    by (simp add: offline_def)
  have empty': "and_then (handler_get_track_metadata ?empty apple_music ''77'')
      (extract_source (platform_name apple_music)) = Inr None"
    by (simp add: extract_source_def offline_def)
  note inst = source_failure_is_reported [where cache = Map.empty and src = "''apple_music''"
      and tid = "''77''" and url = ?url and p = apple_music and sid = "''77''"]
  from inst [where w = offline, THEN conjunct1, THEN mp, OF conjI [OF miss raises]]
  have a: "error (fst (match_track_id offline Map.empty ''77'' ''apple_music''))
       = Some ''Failed to fetch apple_music metadata: offline''
     \<and> snd (match_track_id offline Map.empty ''77'' ''apple_music'')
       = (Map.empty, [Fetch_by_id ''apple_music'' ''77''])"
    by (simp add: case_prod_unfold prod_eq_iff)
  from inst [where w = ?empty, THEN conjunct2, THEN conjunct1, THEN mp, OF conjI [OF miss empty]]
  have b: "error (fst (match_track_id ?empty Map.empty ''77'' ''apple_music''))
       = Some ''No track data found''"
    by (simp add: case_prod_unfold)
  from inst [where w = offline, THEN conjunct2, THEN conjunct2, THEN conjunct1, THEN mp,
      OF conjI [OF parse conjI [OF miss' raises']]]
  have c: "error (fst (match_track offline Map.empty ?url))
       = Some ''Failed to get source metadata: Failed to fetch Apple Music metadata: offline''
     \<and> snd (match_track offline Map.empty ?url) = (Map.empty, [Fetch_by_id ''apple_music'' ''77''])"
    by (simp add: case_prod_unfold prod_eq_iff)
  from inst [where w = ?empty, THEN conjunct2, THEN conjunct2, THEN conjunct2, THEN mp,
      OF conjI [OF parse' conjI [OF miss' empty']]]
  have d: "error (fst (match_track ?empty Map.empty ?url))
       = Some ''No track data found in Apple Music response''"
    by (simp add: case_prod_unfold)
  from miss raises a empty b parse raises' c d show ?thesis
    by simp
qed

subsection \<open>The ISRC attempt comes first\<close>







subsection \<open>What a resolution leaves in the result and in the cache\<close>

text \<open>
  Every stage either succeeds, and then the cache maps the key to the target id of
  the result, or leaves the success flag alone.
\<close>

lemma isrc_attempt_outcome:
  assumes "isrc_attempt w cache tgt result cache_key isrc = (Inr (Some (r, c)), calls)"
  shows "target_platform r = target_platform result \<and> success r \<and> error r = error result
    \<and> c = cache(cache_key \<mapsto> target_id r)"
  using assms by (auto simp: isrc_attempt_def split: if_splits sum.splits option.splits)

lemma metadata_attempt_outcome:
  assumes "metadata_attempt w cache tgt result cache_key title artist = (Inr (r, c), calls)"
  shows "target_platform r = target_platform result
    \<and> (success r \<and> error r = error result \<and> c = cache(cache_key \<mapsto> target_id r)
       \<or> success r = success result \<and> error r \<noteq> None)"
  using assms
  by (auto simp: metadata_attempt_def no_match_def split: if_splits sum.splits option.splits)

lemma cache_hit_Some:
  "cache_hit cache cache_key = Some v \<longleftrightarrow> cache cache_key = Some v \<and> truthy v"
  by (auto simp: cache_hit_def split: option.splits)

lemma match_track_id_body_outcome:
  assumes "match_track_id_body w cache tid src tgt result = (Inr (r, c), calls)"
  shows "target_platform r = target_platform result
    \<and> (success r \<and> error r = error result \<and> c (src @ '':'' @ tid) = Some (target_id r)
       \<or> success r = success result \<and> error r \<noteq> None)"
proof (cases "cache_hit cache (src @ '':'' @ tid)")
  case (Some cached_id)
  with assms have "r = result\<lparr>target_id := cached_id, method_used := Some ''cache'', success := True\<rparr>"
    and "c = cache"
    by (simp_all add: match_track_id_body_def Let_def)
  moreover from Some have "cache (src @ '':'' @ tid) = Some cached_id"
    by (simp add: cache_hit_Some)
  ultimately show ?thesis by simp
next
  case None
  show ?thesis
  proof (cases "and_then (get_track_metadata w tid src) (extract_source src)")
    case (Inl e)
    with None assms show ?thesis by (simp add: match_track_id_body_def Let_def)
  next
    case (Inr src_data)
    show ?thesis
    proof (cases src_data)
      case None': None
      with None Inr assms show ?thesis by (auto simp: match_track_id_body_def Let_def)
    next
      case (Some t)
      obtain title artist isrc where t: "t = (title, artist, isrc)" by (cases t)
      obtain o1 calls1 where i: "isrc_attempt w cache tgt result (src @ '':'' @ tid) isrc = (o1, calls1)"
        by (cases "isrc_attempt w cache tgt result (src @ '':'' @ tid) isrc")
      obtain o2 calls2 where m: "metadata_attempt w cache tgt result (src @ '':'' @ tid) title artist = (o2, calls2)"
        by (cases "metadata_attempt w cache tgt result (src @ '':'' @ tid) title artist")
      show ?thesis
      proof (cases o1)
        case (Inl e)
        with None Inr Some t i assms show ?thesis by (simp add: match_track_id_body_def Let_def)
      next
        case o1: (Inr hit)
        show ?thesis
        proof (cases hit)
          case hit: (Some pair)
          with None Inr Some t i o1 assms have "pair = (r, c)"
            by (simp add: match_track_id_body_def Let_def)
          with i o1 hit isrc_attempt_outcome [of w cache tgt result "src @ '':'' @ tid" isrc r c calls1]
          show ?thesis by auto
        next
          case None'': None
          with None Inr Some t i o1 m assms have "o2 = Inr (r, c)"
            by (simp add: match_track_id_body_def Let_def)
          with m metadata_attempt_outcome [of w cache tgt result "src @ '':'' @ tid" title artist r c calls2]
          show ?thesis by auto
        qed
      qed
    qed
  qed
qed

lemma match_track_id_outcome:
  assumes "match_track_id w cache tid src = (r, c, calls)"
  shows "target_platform r = Some (if src = ''spotify'' then ''apple_music'' else ''spotify'')
    \<and> (success r \<and> error r = None \<and> c (src @ '':'' @ tid) = Some (target_id r)
       \<or> \<not> success r \<and> error r \<noteq> None)"
proof -
  let ?tgt = "if src = ''spotify'' then ''apple_music'' else ''spotify''"
  let ?result = "\<lparr>source_id = Some tid, source_platform = Some src,
                    target_platform = Some ?tgt, target_id = JNull, target_url = None,
                    method_used = None, match_score = None, error = None, success = False\<rparr>"
  obtain outcome calls' where body:
    "match_track_id_body w cache tid src ?tgt ?result = (outcome, calls')"
    by (cases "match_track_id_body w cache tid src ?tgt ?result")
  show ?thesis
  proof (cases outcome)
    case (Inl e)
    with body assms show ?thesis by (auto simp: match_track_id_def Let_def)
  next
    case (Inr rc)
    with body assms have "rc = (r, c)" by (cases rc) (simp add: match_track_id_def Let_def)
    with body Inr match_track_id_body_outcome [of w cache tid src ?tgt ?result r c calls']
    show ?thesis by simp
  qed
qed

lemma match_track_id_cached:
  assumes "cache (src @ '':'' @ tid) = Some v" and "truthy v"
  shows "match_track_id w cache tid src =
     (\<lparr>source_id = Some tid, source_platform = Some src,
       target_platform = Some (if src = ''spotify'' then ''apple_music'' else ''spotify''),
       target_id = v, target_url = None, method_used = Some ''cache'', match_score = None,
       error = None, success = True\<rparr>, cache, [])"
  using assms by (simp add: match_track_id_def match_track_id_body_def cache_hit_def Let_def)




subsection \<open>Source platforms other than Spotify\<close>



lemma isrc_select_outcome:
  assumes "isrc_select tgt search_results result = (r, out)"
  shows "success r = success result \<and> error r = error result"
  using assms by (auto simp: isrc_select_def split: sum.splits option.splits)

lemma isrc_block_outcome:
  assumes "isrc_block w cache tgt result cache_key isrc = ((r, c, returned), calls)"
  shows "error r = error result
    \<and> (if returned then success r \<and> c = cache(cache_key \<mapsto> target_id r)
        else success r = success result \<and> c = cache)"
proof (cases "truthy isrc")
  case False
  with assms show ?thesis by (auto simp: isrc_block_def)
next
  case True
  show ?thesis
  proof (cases "handler_search_by_isrc w tgt isrc")
    case (Inl e)
    with True assms show ?thesis by (auto simp: isrc_block_def)
  next
    case (Inr search_results)
    show ?thesis
    proof (cases "truthy search_results")
      case False
      with True Inr assms show ?thesis by (auto simp: isrc_block_def)
    next
      case sr: True
      obtain r1 out where sel: "isrc_select tgt search_results result = (r1, out)"
        by (cases "isrc_select tgt search_results result")
      note keep = isrc_select_outcome [OF sel]
      from True Inr sr sel keep assms show ?thesis
        by (cases out) (auto simp: isrc_block_def split: if_splits)
    qed
  qed
qed

lemma metadata_block_outcome:
  assumes "metadata_block w cache tgt result cache_key title artist = (r, c, calls)"
  shows "success r \<and> error r = error result \<and> c = cache(cache_key \<mapsto> target_id r)
       \<or> success r = success result \<and> error r \<noteq> None"
  using assms
  by (auto simp: metadata_block_def no_match_def split: if_splits sum.splits option.splits)

lemma match_track_outcome:
  assumes "match_track w cache url = (r, c, calls)"
  shows "success r \<and> error r = None
         \<and> (\<exists>p sid. parse_music_url w url = Inr (p, sid)
               \<and> c (platform_name p @ '':'' @ sid) = Some (target_id r))
       \<or> \<not> success r \<and> error r \<noteq> None"
proof (cases "parse_music_url w url")
  case (Inl e)
  with assms show ?thesis by (auto simp: match_track_def)
next
  case (Inr parsed)
  obtain p sid where parsed: "parsed = (p, sid)" by (cases parsed)
  let ?key = "platform_name p @ '':'' @ sid"
  let ?tgt = "if p = spotify then apple_music else spotify"
  let ?result = "\<lparr>source_id = Some sid, source_platform = Some (platform_name p),
                    target_platform = Some (platform_name ?tgt), target_id = JNull,
                    target_url = None, method_used = None, match_score = None, error = None,
                    success = False, source_url = url\<rparr>"
  show ?thesis
  proof (cases "cache_hit cache ?key")
    case (Some cached_id)
    with Inr parsed assms have "r = ?result\<lparr>target_id := cached_id,
        target_url := Some (create_target_url w ?tgt cached_id),
        method_used := Some ''cache'', success := True\<rparr>" and "c = cache"
      by (simp_all add: match_track_def Let_def)
    moreover from Some have "cache ?key = Some cached_id"
      by (simp add: cache_hit_Some)
    ultimately show ?thesis using Inr parsed by simp
  next
    case None
    show ?thesis
    proof (cases "and_then (handler_get_track_metadata w p sid) (extract_source (platform_name p))")
      case (Inl e)
      with None Inr parsed assms show ?thesis by (auto simp: match_track_def Let_def)
    next
      case src: (Inr src_data)
      show ?thesis
      proof (cases src_data)
        case None': None
        with None Inr parsed src assms show ?thesis by (auto simp: match_track_def Let_def)
      next
        case (Some t)
        obtain title artist isrc where t: "t = (title, artist, isrc)" by (cases t)
        obtain r1 c1 returned calls1 where
          i: "isrc_block w cache ?tgt ?result ?key isrc = ((r1, c1, returned), calls1)"
          by (cases "isrc_block w cache ?tgt ?result ?key isrc") auto
        note io = isrc_block_outcome [OF i]
        show ?thesis
        proof (cases returned)
          case True
          with None Inr parsed src Some t i assms have "r = r1" "c = c1"
            by (simp_all add: match_track_def Let_def)
          with io True Inr parsed show ?thesis by auto
        next
          case False
          obtain r2 c2 calls2 where
            m: "metadata_block w c1 ?tgt r1 ?key title artist = (r2, c2, calls2)"
            by (cases "metadata_block w c1 ?tgt r1 ?key title artist")
          with None Inr parsed src Some t i False assms have "r = r2" "c = c2"
            by (simp_all add: match_track_def Let_def)
          with io False Inr parsed metadata_block_outcome [OF m] show ?thesis by auto
        qed
      qed
    qed
  qed
qed

lemma match_track_cached:
  assumes "parse_music_url w url = Inr (p, sid)"
    and "cache (platform_name p @ '':'' @ sid) = Some v" and "truthy v"
  shows "match_track w cache url =
     (\<lparr>source_id = Some sid, source_platform = Some (platform_name p),
       target_platform = Some (platform_name (if p = spotify then apple_music else spotify)),
       target_id = v,
       target_url = Some (create_target_url w (if p = spotify then apple_music else spotify) v),
       method_used = Some ''cache'', match_score = None, error = None, success = True,
       source_url = url\<rparr>, cache, [])"
  using assms by (simp add: match_track_def cache_hit_def Let_def)


subsection \<open>Resolving the same track again\<close>

text \<open>
  Claim C8, as the code has it. When a call succeeds with a target id that is not
  empty, the next call for the same source track, in any state of the two web
  services, returns the same target id with \<^verbatim>\<open>method_used = "cache"\<close>, makes no
  platform call and leaves the cache as it is.
\<close>

theorem second_resolution_hits_cache:
  "(match_track_id w cache tid src = (r1, cache1, calls1) \<and> success r1 \<and> truthy (target_id r1)
    \<longrightarrow> (case match_track_id w' cache1 tid src of
          (r2, cache2, calls2) \<Rightarrow>
             success r2 \<and> target_id r2 = target_id r1 \<and> method_used r2 = Some ''cache''
             \<and> calls2 = [] \<and> cache2 = cache1))
   \<and> (match_track w cache url = (u1, cache1, calls1) \<and> success u1 \<and> truthy (target_id u1)
      \<and> parse_music_url w' url = parse_music_url w url
    \<longrightarrow> (case match_track w' cache1 url of
          (u2, cache2, calls2) \<Rightarrow>
             success u2 \<and> target_id u2 = target_id u1 \<and> method_used u2 = Some ''cache''
             \<and> calls2 = [] \<and> cache2 = cache1))"
proof (intro conjI impI)
  assume a: "match_track_id w cache tid src = (r1, cache1, calls1) \<and> success r1 \<and> truthy (target_id r1)"
  with match_track_id_outcome [of w cache tid src r1 cache1 calls1]
  have "cache1 (src @ '':'' @ tid) = Some (target_id r1)" by auto
  with match_track_id_cached [of cache1 src tid "target_id r1" w'] a
  show "case match_track_id w' cache1 tid src of
          (r2, cache2, calls2) \<Rightarrow>
             success r2 \<and> target_id r2 = target_id r1 \<and> method_used r2 = Some ''cache''
             \<and> calls2 = [] \<and> cache2 = cache1"
    by simp
next
  assume a: "match_track w cache url = (u1, cache1, calls1) \<and> success u1 \<and> truthy (target_id u1)
      \<and> parse_music_url w' url = parse_music_url w url"
  with match_track_outcome [of w cache url u1 cache1 calls1]
  obtain p sid where p: "parse_music_url w url = Inr (p, sid)"
    and c: "cache1 (platform_name p @ '':'' @ sid) = Some (target_id u1)"
    by auto
  from a p have "parse_music_url w' url = Inr (p, sid)" by simp
  with match_track_cached [of w' url p sid cache1 "target_id u1"] c a
  show "case match_track w' cache1 url of
          (u2, cache2, calls2) \<Rightarrow>
             success u2 \<and> target_id u2 = target_id u1 \<and> method_used u2 = Some ''cache''
             \<and> calls2 = [] \<and> cache2 = cache1"
    by simp
qed

theorem second_resolution_hits_cache_witness:
  "match_track_id isrc_and_metadata Map.empty ''77'' ''apple_music''
     = (fresh_result\<lparr>target_id := JStr ''i1'', method_used := Some ''isrc_match'', success := True\<rparr>,
        [''apple_music:77'' \<mapsto> JStr ''i1''],
        [Fetch_by_id ''apple_music'' ''77'', Search_by_isrc ''spotify'' (JStr ''US1'')])
   \<and> target_id (fst (match_track_id offline [''apple_music:77'' \<mapsto> JStr ''i1''] ''77'' ''apple_music''))
       = JStr ''i1''
   \<and> method_used (fst (match_track_id offline [''apple_music:77'' \<mapsto> JStr ''i1''] ''77'' ''apple_music''))
       = Some ''cache''
   \<and> snd (match_track_id offline [''apple_music:77'' \<mapsto> JStr ''i1''] ''77'' ''apple_music'')
       = ([''apple_music:77'' \<mapsto> JStr ''i1''], [])
   \<and> match_track isrc_and_metadata Map.empty ''https://music.apple.com/us/song/x/77''
     = (fresh_url_result\<lparr>target_id := JStr ''i1'',
                          target_url := Some ''https://open.spotify.com/track/i1'',
                          method_used := Some ''isrc_match'', success := True\<rparr>,
        [''apple_music:77'' \<mapsto> JStr ''i1''],
        [Fetch_by_id ''apple_music'' ''77'', Search_by_isrc ''spotify'' (JStr ''US1'')])
   \<and> target_id (fst (match_track offline [''apple_music:77'' \<mapsto> JStr ''i1'']
         ''https://music.apple.com/us/song/x/77'')) = JStr ''i1''
   \<and> method_used (fst (match_track offline [''apple_music:77'' \<mapsto> JStr ''i1'']
         ''https://music.apple.com/us/song/x/77'')) = Some ''cache''
   \<and> snd (match_track offline [''apple_music:77'' \<mapsto> JStr ''i1'']
         ''https://music.apple.com/us/song/x/77'') = ([''apple_music:77'' \<mapsto> JStr ''i1''], [])"
proof -
  let ?url = "''https://music.apple.com/us/song/x/77''"
  let ?cache = "[''apple_music:77'' \<mapsto> JStr ''i1'']"
  let ?r1 = "fresh_result\<lparr>target_id := JStr ''i1'', method_used := Some ''isrc_match'', success := True\<rparr>"
  let ?u1 = "fresh_url_result\<lparr>target_id := JStr ''i1'',
                          target_url := Some ''https://open.spotify.com/track/i1'',
                          method_used := Some ''isrc_match'', success := True\<rparr>"
  let ?calls = "[Fetch_by_id ''apple_music'' ''77'', Search_by_isrc ''spotify'' (JStr ''US1'')]"
  have first: "match_track_id isrc_and_metadata Map.empty ''77'' ''apple_music'' = (?r1, ?cache, ?calls)"
    by (simp add: resolver_defs scenario_defs example_defs)
  have first': "match_track isrc_and_metadata Map.empty ?url = (?u1, ?cache, ?calls)"
    by (simp add: url_resolver_defs scenario_defs example_defs)
  have ok: "success ?r1 \<and> truthy (target_id ?r1)" by simp
  have ok': "success ?u1 \<and> truthy (target_id ?u1)" by simp
  have parse: "parse_music_url offline ?url = parse_music_url isrc_and_metadata ?url"
    by (simp add: scenario_defs)
  from second_resolution_hits_cache [where w' = offline, THEN conjunct1, THEN mp,
      OF conjI [OF first ok]]
  have a: "target_id (fst (match_track_id offline ?cache ''77'' ''apple_music'')) = JStr ''i1''
     \<and> method_used (fst (match_track_id offline ?cache ''77'' ''apple_music'')) = Some ''cache''
     \<and> snd (match_track_id offline ?cache ''77'' ''apple_music'') = (?cache, [])"
    by (simp add: case_prod_unfold prod_eq_iff)
  from second_resolution_hits_cache [where w' = offline, THEN conjunct2, THEN mp,
      OF conjI [OF first' conjI [OF conjunct1 [OF ok'] conjI [OF conjunct2 [OF ok'] parse]]]]
  have b: "target_id (fst (match_track offline ?cache ?url)) = JStr ''i1''
     \<and> method_used (fst (match_track offline ?cache ?url)) = Some ''cache''
     \<and> snd (match_track offline ?cache ?url) = (?cache, [])"
    by (simp add: case_prod_unfold prod_eq_iff)
  from first first' a b show ?thesis by simp
qed

text \<open>
  The claim as stated fails where the first call succeeds with an empty target id:
  the stored id is not truthy, so the second call goes through the platforms again.
\<close>

theorem second_resolution_counterexample:
  "match_track_id empty_target_id Map.empty ''77'' ''apple_music''
     = (fresh_result\<lparr>target_id := JStr [], method_used := Some ''isrc_match'', success := True\<rparr>,
        [''apple_music:77'' \<mapsto> JStr []],
        [Fetch_by_id ''apple_music'' ''77'', Search_by_isrc ''spotify'' (JStr ''US1'')])
   \<and> match_track_id empty_target_id [''apple_music:77'' \<mapsto> JStr []] ''77'' ''apple_music''
     = (fresh_result\<lparr>target_id := JStr [], method_used := Some ''isrc_match'', success := True\<rparr>,
        [''apple_music:77'' \<mapsto> JStr []],
        [Fetch_by_id ''apple_music'' ''77'', Search_by_isrc ''spotify'' (JStr ''US1'')])
   \<and> match_track empty_target_id Map.empty ''https://music.apple.com/us/song/x/77''
     = (fresh_url_result\<lparr>target_id := JStr [],
                          target_url := Some ''https://open.spotify.com/track/'',
                          method_used := Some ''metadata_match'', match_score := Some 1,
                          success := True\<rparr>,
        [''apple_music:77'' \<mapsto> JStr []],
        [Fetch_by_id ''apple_music'' ''77'', Search_by_isrc ''spotify'' (JStr ''US1''),
         Search_by_metadata ''spotify'' (JStr ''abcde'') (JStr ''B'')])
   \<and> match_track empty_target_id [''apple_music:77'' \<mapsto> JStr []]
         ''https://music.apple.com/us/song/x/77''
     = (fresh_url_result\<lparr>target_id := JStr [],
                          target_url := Some ''https://open.spotify.com/track/'',
                          method_used := Some ''metadata_match'', match_score := Some 1,
                          success := True\<rparr>,
        [''apple_music:77'' \<mapsto> JStr []],
        [Fetch_by_id ''apple_music'' ''77'', Search_by_isrc ''spotify'' (JStr ''US1''),
         Search_by_metadata ''spotify'' (JStr ''abcde'') (JStr ''B'')])"
proof (intro conjI)
  show "match_track_id empty_target_id Map.empty ''77'' ''apple_music''
     = (fresh_result\<lparr>target_id := JStr [], method_used := Some ''isrc_match'', success := True\<rparr>,
        [''apple_music:77'' \<mapsto> JStr []],
        [Fetch_by_id ''apple_music'' ''77'', Search_by_isrc ''spotify'' (JStr ''US1'')])"
    by (simp add: resolver_defs scenario_defs empty_target_id_def example_defs)
  show "match_track_id empty_target_id [''apple_music:77'' \<mapsto> JStr []] ''77'' ''apple_music''
     = (fresh_result\<lparr>target_id := JStr [], method_used := Some ''isrc_match'', success := True\<rparr>,
        [''apple_music:77'' \<mapsto> JStr []],
        [Fetch_by_id ''apple_music'' ''77'', Search_by_isrc ''spotify'' (JStr ''US1'')])"
    by (simp add: resolver_defs scenario_defs empty_target_id_def example_defs)
  show "match_track empty_target_id Map.empty ''https://music.apple.com/us/song/x/77''
     = (fresh_url_result\<lparr>target_id := JStr [],
                          target_url := Some ''https://open.spotify.com/track/'',
                          method_used := Some ''metadata_match'', match_score := Some 1,
                          success := True\<rparr>,
        [''apple_music:77'' \<mapsto> JStr []],
        [Fetch_by_id ''apple_music'' ''77'', Search_by_isrc ''spotify'' (JStr ''US1''),
         Search_by_metadata ''spotify'' (JStr ''abcde'') (JStr ''B'')])"
    by (simp add: url_resolver_defs scenario_defs empty_target_id_def example_defs total_score_def
        track_fields_def lower_def lower_char_def)
  show "match_track empty_target_id [''apple_music:77'' \<mapsto> JStr []]
         ''https://music.apple.com/us/song/x/77''
     = (fresh_url_result\<lparr>target_id := JStr [],
                          target_url := Some ''https://open.spotify.com/track/'',
                          method_used := Some ''metadata_match'', match_score := Some 1,
                          success := True\<rparr>,
        [''apple_music:77'' \<mapsto> JStr []],
        [Fetch_by_id ''apple_music'' ''77'', Search_by_isrc ''spotify'' (JStr ''US1''),
         Search_by_metadata ''spotify'' (JStr ''abcde'') (JStr ''B'')])"
    by (simp add: url_resolver_defs scenario_defs empty_target_id_def example_defs total_score_def
        track_fields_def lower_def lower_char_def)
qed

end
